theory Spec2Isabelle
  imports Complex_Main
begin

section \<open>Planets API: authentication and guarded resource operations\<close>

text \<open>
  The repository holds two implementations of the same REST service:
  \<^verbatim>\<open>Backend/app.py\<close> (FastAPI, SQLAlchemy, python-jose) and
  \<^verbatim>\<open>Backend/flask_app.py\<close> (Flask, in-memory lists, PyJWT). Both modules use the same
  function names, so a definition that embeds a function of \<^verbatim>\<open>app.py\<close> carries the prefix
  \<open>app_\<close> and one that embeds a function of \<^verbatim>\<open>flask_app.py\<close> the prefix \<open>flask_\<close>,
  wherever the two bodies differ.

  Conventions of the embedding:
  \<^item> an instant of time and a \<^verbatim>\<open>timedelta\<close> are integers (seconds); every function that
    reads the clock takes the reading \<open>now\<close> as an argument;
  \<^item> a raised \<^verbatim>\<open>HTTPException\<close> and a Flask \<^verbatim>\<open>(body, status)\<close> error return are the
    value \<open>Status code detail\<close>; an exception that no handler catches is \<open>Crash\<close>;
  \<^item> the third-party libraries (the JWT codec and the password hashing context) are
    arguments of the functions that call them.
\<close>

subsection \<open>JSON values and Python's view of them\<close>

text \<open>
  Scalar JSON values as Python sees them after parsing; \<open>JNull\<close> is \<^verbatim>\<open>None\<close>.
  No function of the service looks inside a JSON array or object, so they are left out.
\<close>

datatype json = JNull | JBool bool | JInt int | JNum real | JStr string

text \<open>Python truthiness, as used by \<^verbatim>\<open>if not x\<close>.\<close>

fun truthy :: "json \<Rightarrow> bool" where
  "truthy JNull = False"
| "truthy (JBool b) = b"
| "truthy (JInt i) = (i \<noteq> 0)"
| "truthy (JNum r) = (r \<noteq> 0)"
| "truthy (JStr s) = (s \<noteq> [])"

text \<open>
  Python's \<^verbatim>\<open>==\<close> on such values: numbers (booleans included) compare by value across
  types, everything else by type and content.
\<close>

fun num_val :: "json \<Rightarrow> real option" where
  "num_val (JBool b) = Some (if b then 1 else 0)"
| "num_val (JInt i) = Some (of_int i)"
| "num_val (JNum r) = Some r"
| "num_val JNull = None"
| "num_val (JStr s) = None"

definition py_eq :: "json \<Rightarrow> json \<Rightarrow> bool" where
  "py_eq a b =
     (case num_val a of
        Some x \<Rightarrow> (case num_val b of Some y \<Rightarrow> x = y | None \<Rightarrow> False)
      | None \<Rightarrow> (case num_val b of Some y \<Rightarrow> False | None \<Rightarrow> a = b))"

text \<open>\<^verbatim>\<open>d.get(k)\<close>: the value, or \<^verbatim>\<open>None\<close> when the key is missing.\<close>

definition py_get :: "(string \<rightharpoonup> json) \<Rightarrow> string \<Rightarrow> json" where
  "py_get d k = (case d k of None \<Rightarrow> JNull | Some v \<Rightarrow> v)"

text \<open>\<^verbatim>\<open>s.split(c)\<close> for a one-character separator: never empty, keeps empty pieces.\<close>

fun split_on :: "char \<Rightarrow> string \<Rightarrow> string list" where
  "split_on c [] = [[]]"
| "split_on c (x # xs) =
     (if x = c then [] # split_on c xs
      else (case split_on c xs of
              w # ws \<Rightarrow> (x # w) # ws
            | [] \<Rightarrow> [[x]]))"

subsection \<open>Outcomes\<close>

datatype failure = Status nat string | Crash

fun status_code :: "failure \<Rightarrow> nat" where
  "status_code (Status c d) = c"
| "status_code Crash = 500"

text \<open>A result is rejected with the status \<open>c\<close>.\<close>

definition rejected_with :: "nat \<Rightarrow> failure + 'a \<Rightarrow> bool" where
  "rejected_with c r = (case r of Inl e \<Rightarrow> status_code e = c | Inr x \<Rightarrow> False)"

subsection \<open>Principals\<close>

text \<open>
  \<^verbatim>\<open>class User(Base)\<close> of \<^verbatim>\<open>app.py\<close>; the dictionaries of \<^verbatim>\<open>users_db\<close> in
  \<^verbatim>\<open>flask_app.py\<close> have exactly the same keys (\<^verbatim>\<open>init_data\<close> is their only writer).
  The columns \<^verbatim>\<open>id\<close> and \<^verbatim>\<open>created_at\<close> are named \<open>user_id\<close> and \<open>user_created_at\<close>.
\<close>

record User =
  user_id :: int
  username :: string
  email :: string
  hashed_password :: string
  is_active :: bool
  user_created_at :: int

subsection \<open>Configuration and library interfaces\<close>

text \<open>
  The module constants. \<^verbatim>\<open>app.py\<close> reads them from the environment and falls back to
  these defaults; \<^verbatim>\<open>flask_app.py\<close> has them as literals.
\<close>

definition app_SECRET_KEY :: string where
  "app_SECRET_KEY = ''your-secret-key-change-in-production-make-it-long-and-random''"

definition flask_SECRET_KEY :: string where
  "flask_SECRET_KEY = ''your-secret-key-change-in-production''"

definition ALGORITHM :: string where
  "ALGORITHM = ''HS256''"

definition ACCESS_TOKEN_EXPIRE_MINUTES :: int where
  "ACCESS_TOKEN_EXPIRE_MINUTES = 30"

text \<open>\<^verbatim>\<open>timedelta(minutes=m)\<close> in seconds.\<close>

definition minutes :: "int \<Rightarrow> int" where
  "minutes m = 60 * m"

text \<open>
  A token payload is a dictionary of claims. \<^verbatim>\<open>jwt.encode(payload, key, algorithm=a)\<close> is
  \<open>enc payload key a\<close>. \<^verbatim>\<open>jwt.decode(token, key, algorithms=as)\<close>, called when the clock
  reads \<open>now\<close>, is \<open>dec now token key as\<close>: \<open>None\<close> stands for every error of the
  library's own family (\<^verbatim>\<open>JWTError\<close>, \<^verbatim>\<open>PyJWTError\<close>), which is all the callers catch.
  \<^verbatim>\<open>pwd_context.verify(plain, hashed)\<close> is \<open>pv plain hashed\<close>: \<open>Some\<close> of the verdict,
  or \<open>None\<close> when the call raises instead of returning (the hashing context does so on a
  password that contains a NUL character and on a stored hash that it cannot identify).
\<close>

type_synonym payload = "string \<rightharpoonup> json"
type_synonym jwt_encode = "payload \<Rightarrow> string \<Rightarrow> string \<Rightarrow> string"
type_synonym jwt_decode = "int \<Rightarrow> string \<Rightarrow> string \<Rightarrow> string list \<Rightarrow> payload option"
type_synonym crypt_verify = "string \<Rightarrow> string \<Rightarrow> bool option"

subsection \<open>Auth functions\<close>

text \<open>
  \<^verbatim>\<open>verify_password\<close> has no handler around the library call, and neither have its
  callers: what the library raises leaves the request handler.
\<close>

definition verify_password :: "crypt_verify \<Rightarrow> string \<Rightarrow> string \<Rightarrow> failure + bool" where
  "verify_password pv plain_password hashed =
     (case pv plain_password hashed of
        None \<Rightarrow> Inl Crash
      | Some verdict \<Rightarrow> Inr verdict)"

text \<open>
  \<^verbatim>\<open>create_access_token\<close> up to the call of the encoder: the dictionary \<^verbatim>\<open>to_encode\<close>.
  The test \<^verbatim>\<open>if expires_delta:\<close> is Python truthiness: \<^verbatim>\<open>None\<close> is false, and so is
  \<^verbatim>\<open>timedelta(0)\<close>. The body is the same in both modules.
\<close>

definition to_encode :: "int \<Rightarrow> payload \<Rightarrow> int option \<Rightarrow> payload" where
  "to_encode now data expires_delta =
     (let expire =
        (case expires_delta of
           None \<Rightarrow> now + minutes ACCESS_TOKEN_EXPIRE_MINUTES
         | Some d \<Rightarrow> if d \<noteq> 0 then now + d
                     else now + minutes ACCESS_TOKEN_EXPIRE_MINUTES)
      in data(''exp'' \<mapsto> JInt expire))"

definition app_create_access_token ::
  "jwt_encode \<Rightarrow> int \<Rightarrow> payload \<Rightarrow> int option \<Rightarrow> string" where
  "app_create_access_token enc now data expires_delta =
     enc (to_encode now data expires_delta) app_SECRET_KEY ALGORITHM"

definition flask_create_access_token ::
  "jwt_encode \<Rightarrow> int \<Rightarrow> payload \<Rightarrow> int option \<Rightarrow> string" where
  "flask_create_access_token enc now data expires_delta =
     enc (to_encode now data expires_delta) flask_SECRET_KEY ALGORITHM"

definition credentials_exception :: failure where
  "credentials_exception = Status 401 ''Could not validate credentials''"

text \<open>\<^verbatim>\<open>verify_token\<close> of \<^verbatim>\<open>app.py\<close>: raises the exception it is handed.\<close>

definition app_verify_token :: "jwt_decode \<Rightarrow> int \<Rightarrow> string \<Rightarrow> failure \<Rightarrow> failure + json" where
  "app_verify_token dec now token exc =
     (case dec now token app_SECRET_KEY [ALGORITHM] of
        None \<Rightarrow> Inl exc
      | Some payload \<Rightarrow>
          (let uname = py_get payload ''sub''
           in if uname = JNull then Inl exc else Inr uname))"

text \<open>\<^verbatim>\<open>verify_token\<close> of \<^verbatim>\<open>flask_app.py\<close>: returns \<^verbatim>\<open>None\<close> instead.\<close>

definition flask_verify_token :: "jwt_decode \<Rightarrow> int \<Rightarrow> string \<Rightarrow> json" where
  "flask_verify_token dec now token =
     (case dec now token flask_SECRET_KEY [ALGORITHM] of
        None \<Rightarrow> JNull
      | Some payload \<Rightarrow>
          (let uname = py_get payload ''sub''
           in if uname = JNull then JNull else uname))"

text \<open>
  \<^verbatim>\<open>db.query(User).filter(User.username == username).first()\<close> and
  \<^verbatim>\<open>next((u for u in users_db if u['username'] == username), None)\<close>: the first principal
  with that username.
\<close>

definition authenticate_user ::
  "crypt_verify \<Rightarrow> User list \<Rightarrow> string \<Rightarrow> string \<Rightarrow> failure + User option" where
  "authenticate_user pv db uname password =
     (case find (\<lambda>u. username u = uname) db of
        None \<Rightarrow> Inr None
      | Some user \<Rightarrow>
          (case verify_password pv password (hashed_password user) of
             Inl e \<Rightarrow> Inl e
           | Inr verdict \<Rightarrow> if verdict then Inr (Some user) else Inr None))"

subsection \<open>The guards\<close>

record HTTPAuthorizationCredentials =
  scheme :: string
  credentials :: string

text \<open>
  Modelled from the spec: the object \<^verbatim>\<open>security = HTTPBearer()\<close> of \<^verbatim>\<open>app.py\<close> is an
  instance of a class of the web framework, which the framework calls on the request
  before \<^verbatim>\<open>get_current_user\<close>. The spec, section 6: the header format is
  \<^verbatim>\<open>Authorization: Bearer <token>\<close>; any other scheme or a missing header is treated as
  "no credential" (403-class); section 4.4: no Authorization header or a malformed
  \<^verbatim>\<open>Bearer <token>\<close> shape is rejected as missing.
\<close>

definition HTTPBearer :: "string option \<Rightarrow> failure + HTTPAuthorizationCredentials" where
  "HTTPBearer authorization =
     (case authorization of
        None \<Rightarrow> Inl (Status 403 ''Not authenticated'')
      | Some h \<Rightarrow>
          if take 7 h = ''Bearer '' \<and> drop 7 h \<noteq> []
          then Inr \<lparr>scheme = ''Bearer'', credentials = drop 7 h\<rparr>
          else Inl (Status 403 ''Not authenticated''))"

text \<open>\<^verbatim>\<open>get_current_user\<close> of \<^verbatim>\<open>app.py\<close>, on the credentials the dependency hands it.\<close>

definition get_current_user ::
  "jwt_decode \<Rightarrow> int \<Rightarrow> User list \<Rightarrow> HTTPAuthorizationCredentials \<Rightarrow> failure + User" where
  "get_current_user dec now users creds =
     (let token = credentials creds
      in case app_verify_token dec now token credentials_exception of
           Inl e \<Rightarrow> Inl e
         | Inr uname \<Rightarrow>
             (case find (\<lambda>u. JStr (username u) = uname) users of
                None \<Rightarrow> Inl credentials_exception
              | Some user \<Rightarrow> Inr user))"

text \<open>
  \<^verbatim>\<open>Depends(get_current_user)\<close> with its own \<^verbatim>\<open>Depends(security)\<close>: the guard of every
  protected route of \<^verbatim>\<open>app.py\<close>, from the raw header value.
\<close>

definition app_guard :: "jwt_decode \<Rightarrow> int \<Rightarrow> User list \<Rightarrow> string option \<Rightarrow> failure + User" where
  "app_guard dec now users authorization =
     (case HTTPBearer authorization of
        Inl e \<Rightarrow> Inl e
      | Inr creds \<Rightarrow> get_current_user dec now users creds)"

text \<open>
  \<^verbatim>\<open>token_required\<close> of \<^verbatim>\<open>flask_app.py\<close>: everything \<^verbatim>\<open>decorated\<close> does before it calls
  the wrapped handler with \<^verbatim>\<open>current_user\<close>. \<^verbatim>\<open>auth_header.split(" ")[1]\<close> raises
  \<^verbatim>\<open>IndexError\<close> when the header has no space, which the function catches.
\<close>

definition token_required :: "jwt_decode \<Rightarrow> int \<Rightarrow> User list \<Rightarrow> string option \<Rightarrow> failure + User" where
  "token_required dec now users_db authorization =
     (case (case authorization of
              None \<Rightarrow> Inr None
            | Some auth_header \<Rightarrow>
                (case split_on CHR '' '' auth_header of
                   a # t # rest \<Rightarrow> Inr (Some t)
                 | _ \<Rightarrow> Inl (Status 401 ''Token is missing''))) of
        Inl e \<Rightarrow> Inl e
      | Inr None \<Rightarrow> Inl (Status 401 ''Token is missing'')
      | Inr (Some token) \<Rightarrow>
          if token = [] then Inl (Status 401 ''Token is missing'')
          else
            (let uname = flask_verify_token dec now token
             in if truthy uname
                then (case find (\<lambda>u. JStr (username u) = uname) users_db of
                        None \<Rightarrow> Inl (Status 401 ''User not found'')
                      | Some current_user \<Rightarrow> Inr current_user)
                else Inl (Status 401 ''Token is invalid'')))"

subsection \<open>Login\<close>

text \<open>
  \<^verbatim>\<open>login\<close> of \<^verbatim>\<open>app.py\<close>, on the two fields of the parsed \<^verbatim>\<open>UserLogin\<close> body; the
  success value is the \<^verbatim>\<open>access_token\<close> of the response.
\<close>

definition app_login ::
  "crypt_verify \<Rightarrow> jwt_encode \<Rightarrow> int \<Rightarrow> User list \<Rightarrow> string \<Rightarrow> string \<Rightarrow> failure + string" where
  "app_login pv enc now db uname password =
     (case authenticate_user pv db uname password of
        Inl e \<Rightarrow> Inl e
      | Inr None \<Rightarrow> Inl (Status 401 ''Incorrect username or password'')
      | Inr (Some user) \<Rightarrow>
          Inr (app_create_access_token enc now
                 [''sub'' \<mapsto> JStr (username user)] (Some (minutes 30))))"

text \<open>
  \<^verbatim>\<open>login\<close> of \<^verbatim>\<open>flask_app.py\<close>, on the JSON object of the request. The password
  hashing context raises \<^verbatim>\<open>TypeError\<close> on a secret that is not a string, a missing
  password (\<^verbatim>\<open>None\<close>) included.
\<close>

definition flask_login ::
  "crypt_verify \<Rightarrow> jwt_encode \<Rightarrow> int \<Rightarrow> User list \<Rightarrow> (string \<rightharpoonup> json) \<Rightarrow> failure + string" where
  "flask_login pv enc now users_db data =
     (let uname = py_get data ''username'';
          password = py_get data ''password''
      in case find (\<lambda>u. JStr (username u) = uname) users_db of
           None \<Rightarrow> Inl (Status 401 ''Incorrect username or password'')
         | Some user \<Rightarrow>
             (case password of
                JStr p \<Rightarrow>
                  (case verify_password pv p (hashed_password user) of
                     Inl e \<Rightarrow> Inl e
                   | Inr verdict \<Rightarrow>
                       if verdict
                       then Inr (flask_create_access_token enc now
                                   [''sub'' \<mapsto> JStr (username user)]
                                   (Some (minutes ACCESS_TOKEN_EXPIRE_MINUTES)))
                       else Inl (Status 401 ''Incorrect username or password''))
              | _ \<Rightarrow> Inl Crash))"

subsection \<open>Planets in \<^verbatim>\<open>app.py\<close>\<close>

text \<open>
  \<^verbatim>\<open>class Planet(Base)\<close>: an ORM object, whose attributes can hold \<^verbatim>\<open>None\<close> until a
  commit checks the columns' constraints. The column \<^verbatim>\<open>id\<close> is named \<open>planet_id\<close>.
  The table is the list of its rows.
\<close>

record Planet =
  planet_id :: int
  name :: "string option"
  planet_type :: "string option"
  distance_from_sun :: "real option"
  radius :: "real option"
  description :: "string option"
  mass :: "real option"
  orbital_period :: "real option"
  created_at :: int
  updated_at :: int

text \<open>\<^verbatim>\<open>class PlanetCreate(PlanetBase)\<close>, after validation; fields carry the prefix \<open>c_\<close>.\<close>

record PlanetCreate =
  c_name :: string
  c_planet_type :: string
  c_distance_from_sun :: real
  c_radius :: real
  c_description :: "string option"
  c_mass :: "real option"
  c_orbital_period :: "real option"

text \<open>
  \<^verbatim>\<open>class PlanetUpdate(BaseModel)\<close>, after validation; fields carry the prefix \<open>u_\<close>.
  Every field is optional and defaults to \<^verbatim>\<open>None\<close>, and \<^verbatim>\<open>dict(exclude_unset=True)\<close>
  keeps exactly the fields the request gave, a given \<^verbatim>\<open>null\<close> included. So a field is
  \<open>None\<close> when the request left it out and \<open>Some v\<close> when it gave the value \<open>v\<close>, where
  \<open>v\<close> is again \<open>None\<close> for \<^verbatim>\<open>null\<close>.
\<close>

record PlanetUpdate =
  u_name :: "string option option"
  u_planet_type :: "string option option"
  u_distance_from_sun :: "real option option"
  u_radius :: "real option option"
  u_description :: "string option option"
  u_mass :: "real option option"
  u_orbital_period :: "real option option"

text \<open>
  The constraints the table declares: \<^verbatim>\<open>nullable=False\<close> on four columns and
  \<^verbatim>\<open>unique=True\<close> on the name. A commit that breaks one raises \<^verbatim>\<open>IntegrityError\<close>,
  which no handler catches; the session is then closed without the change.
\<close>

definition not_null_ok :: "Planet \<Rightarrow> bool" where
  "not_null_ok p =
     (name p \<noteq> None \<and> planet_type p \<noteq> None \<and> distance_from_sun p \<noteq> None \<and> radius p \<noteq> None)"

definition name_taken :: "Planet list \<Rightarrow> Planet \<Rightarrow> bool" where
  "name_taken db p = list_ex (\<lambda>q. planet_id q \<noteq> planet_id p \<and> name q = name p) db"

text \<open>The key the store gives a new row: one more than the largest in use.\<close>

definition next_id :: "Planet list \<Rightarrow> int" where
  "next_id db = fold max (map planet_id db) 0 + 1"

definition app_create_planet ::
  "int \<Rightarrow> Planet list \<Rightarrow> PlanetCreate \<Rightarrow> (failure + Planet) \<times> Planet list" where
  "app_create_planet now db planet =
     (case find (\<lambda>p. name p = Some (c_name planet)) db of
        Some existing_planet \<Rightarrow>
          (Inl (Status 400 ''Planet with this name already exists''), db)
      | None \<Rightarrow>
          (let db_planet =
             \<lparr>planet_id = next_id db,
              name = Some (c_name planet),
              planet_type = Some (c_planet_type planet),
              distance_from_sun = Some (c_distance_from_sun planet),
              radius = Some (c_radius planet),
              description = c_description planet,
              mass = c_mass planet,
              orbital_period = c_orbital_period planet,
              created_at = now,
              updated_at = now\<rparr>
           in (Inr db_planet, db @ [db_planet])))"

text \<open>
  The loop \<^verbatim>\<open>for field, value in update_data.items(): setattr(db_planet, field, value)\<close>,
  one step per field in the order of the schema.
\<close>

definition setattrs :: "PlanetUpdate \<Rightarrow> Planet \<Rightarrow> Planet" where
  "setattrs upd p0 =
     (let p1 = (case u_name upd of None \<Rightarrow> p0 | Some v \<Rightarrow> p0\<lparr>name := v\<rparr>);
          p2 = (case u_planet_type upd of None \<Rightarrow> p1 | Some v \<Rightarrow> p1\<lparr>planet_type := v\<rparr>);
          p3 = (case u_distance_from_sun upd of None \<Rightarrow> p2
                | Some v \<Rightarrow> p2\<lparr>distance_from_sun := v\<rparr>);
          p4 = (case u_radius upd of None \<Rightarrow> p3 | Some v \<Rightarrow> p3\<lparr>radius := v\<rparr>);
          p5 = (case u_description upd of None \<Rightarrow> p4 | Some v \<Rightarrow> p4\<lparr>description := v\<rparr>);
          p6 = (case u_mass upd of None \<Rightarrow> p5 | Some v \<Rightarrow> p5\<lparr>mass := v\<rparr>)
      in (case u_orbital_period upd of None \<Rightarrow> p6 | Some v \<Rightarrow> p6\<lparr>orbital_period := v\<rparr>))"

text \<open>
  The store behind the default \<^verbatim>\<open>DATABASE_URL\<close> is SQLite, whose driver binds an integer
  parameter of a query as a signed 64-bit value and raises \<^verbatim>\<open>OverflowError\<close> on any other
  Python integer. The path parameter \<^verbatim>\<open>planet_id: int\<close> is unbounded, and no handler
  catches the error.
\<close>

definition sqlite_int :: "int \<Rightarrow> bool" where
  "sqlite_int i = (- (2 ^ 63) \<le> i \<and> i < 2 ^ 63)"

text \<open>Replacing the row with a given key.\<close>

definition replace_row :: "Planet \<Rightarrow> Planet list \<Rightarrow> Planet list" where
  "replace_row p db = map (\<lambda>q. if planet_id q = planet_id p then p else q) db"

text \<open>
  \<^verbatim>\<open>update_planet\<close> of \<^verbatim>\<open>app.py\<close>. The query for the row, with the id as its
  parameter, comes first. The ORM writes nothing when no attribute changed its value; otherwise the update statement also sets \<^verbatim>\<open>updated_at\<close> (\<^verbatim>\<open>onupdate=func.now()\<close>).
\<close>

definition app_update_planet ::
  "int \<Rightarrow> Planet list \<Rightarrow> int \<Rightarrow> PlanetUpdate \<Rightarrow> (failure + Planet) \<times> Planet list" where
  "app_update_planet now db pid planet_update =
     (if sqlite_int pid
      then (case find (\<lambda>p. planet_id p = pid) db of
              None \<Rightarrow> (Inl (Status 404 ''Planet not found''), db)
            | Some db_planet \<Rightarrow>
                (let changed = setattrs planet_update db_planet
                 in if changed = db_planet then (Inr db_planet, db)
                    else if not_null_ok changed
                    then (if name_taken db changed then (Inl Crash, db)
                          else (let stored = changed\<lparr>updated_at := now\<rparr>
                                in (Inr stored, replace_row stored db)))
                    else (Inl Crash, db)))
      else (Inl Crash, db))"

text \<open>
  \<^verbatim>\<open>delete_planet\<close> of \<^verbatim>\<open>app.py\<close>: the same query first, then the row goes by its
  primary key.
\<close>

definition app_delete_planet ::
  "Planet list \<Rightarrow> int \<Rightarrow> (failure + unit) \<times> Planet list" where
  "app_delete_planet db pid =
     (if sqlite_int pid
      then (case find (\<lambda>p. planet_id p = pid) db of
              None \<Rightarrow> (Inl (Status 404 ''Planet not found''), db)
            | Some db_planet \<Rightarrow>
                (Inr (), filter (\<lambda>p. planet_id p \<noteq> planet_id db_planet) db))
      else (Inl Crash, db))"

text \<open>
  A protected route of \<^verbatim>\<open>app.py\<close>: the guard runs first, and the handler only when the
  guard has produced \<^verbatim>\<open>current_user\<close>, which no handler reads.
\<close>

definition app_protected ::
  "jwt_decode \<Rightarrow> int \<Rightarrow> User list \<Rightarrow> string option \<Rightarrow> 's \<Rightarrow> ((failure + 'a) \<times> 's)
     \<Rightarrow> (failure + 'a) \<times> 's" where
  "app_protected dec now users authorization db handler =
     (case app_guard dec now users authorization of
        Inl e \<Rightarrow> (Inl e, db)
      | Inr current_user \<Rightarrow> handler)"

definition app_post_planets ::
  "jwt_decode \<Rightarrow> int \<Rightarrow> User list \<Rightarrow> string option \<Rightarrow> Planet list \<Rightarrow> PlanetCreate \<Rightarrow> (failure + Planet) \<times> Planet list" where
  "app_post_planets dec now users authorization db planet =
     app_protected dec now users authorization db (app_create_planet now db planet)"

definition app_put_planet ::
  "jwt_decode \<Rightarrow> int \<Rightarrow> User list \<Rightarrow> string option \<Rightarrow> Planet list \<Rightarrow> int \<Rightarrow> PlanetUpdate \<Rightarrow> (failure + Planet) \<times> Planet list" where
  "app_put_planet dec now users authorization db pid planet_update =
     app_protected dec now users authorization db (app_update_planet now db pid planet_update)"

definition app_delete_planet_route ::
  "jwt_decode \<Rightarrow> int \<Rightarrow> User list \<Rightarrow> string option \<Rightarrow> Planet list \<Rightarrow> int \<Rightarrow> (failure + unit) \<times> Planet list" where
  "app_delete_planet_route dec now users authorization db pid =
     app_protected dec now users authorization db (app_delete_planet db pid)"

subsection \<open>Planets in \<^verbatim>\<open>flask_app.py\<close>\<close>

text \<open>
  A planet is a dictionary and \<^verbatim>\<open>planets_db\<close> a list of them. A timestamp, which the
  source stores as the ISO text of the instant, is the instant itself.

  \<^verbatim>\<open>next((p for p in planets_db if p[k] == v), None)\<close>: the position of the first match,
  so that the handler can change that dictionary in place. Reading a key that a
  dictionary lacks raises \<^verbatim>\<open>KeyError\<close>, which no handler catches.
\<close>

type_synonym pdict = "string \<rightharpoonup> json"

fun first_where :: "string \<Rightarrow> json \<Rightarrow> pdict list \<Rightarrow> failure + nat option" where
  "first_where k v [] = Inr None"
| "first_where k v (p # ps) =
     (case p k of
        None \<Rightarrow> Inl Crash
      | Some w \<Rightarrow>
          if py_eq w v then Inr (Some 0)
          else (case first_where k v ps of
                  Inl e \<Rightarrow> Inl e
                | Inr None \<Rightarrow> Inr None
                | Inr (Some i) \<Rightarrow> Inr (Some (Suc i))))"

text \<open>\<^verbatim>\<open>[p['id'] for p in planets_db]\<close>.\<close>

fun ids_of :: "pdict list \<Rightarrow> json list option" where
  "ids_of [] = Some []"
| "ids_of (p # ps) =
     (case p ''id'' of
        None \<Rightarrow> None
      | Some v \<Rightarrow> (case ids_of ps of None \<Rightarrow> None | Some vs \<Rightarrow> Some (v # vs)))"

text \<open>
  \<^verbatim>\<open>max(xs, default=0) + 1\<close>. \<^verbatim>\<open>max\<close> keeps the first of the largest elements. On
  anything that is not a number either a comparison or the addition raises
  \<^verbatim>\<open>TypeError\<close>: the result is \<open>None\<close>.
\<close>

fun max_from :: "json \<Rightarrow> json list \<Rightarrow> json option" where
  "max_from m [] = Some m"
| "max_from m (x # xs) =
     (case num_val x of
        None \<Rightarrow> None
      | Some a \<Rightarrow>
          (case num_val m of
             None \<Rightarrow> None
           | Some b \<Rightarrow> max_from (if b < a then x else m) xs))"

fun plus_one :: "json \<Rightarrow> json option" where
  "plus_one (JInt i) = Some (JInt (i + 1))"
| "plus_one (JNum r) = Some (JNum (r + 1))"
| "plus_one (JBool b) = Some (JInt ((if b then 1 else 0) + 1))"
| "plus_one JNull = None"
| "plus_one (JStr s) = None"

definition new_id :: "pdict list \<Rightarrow> json option" where
  "new_id planets_db =
     (case ids_of planets_db of
        None \<Rightarrow> None
      | Some [] \<Rightarrow> plus_one (JInt 0)
      | Some (x # xs) \<Rightarrow> (case max_from x xs of None \<Rightarrow> None | Some m \<Rightarrow> plus_one m))"

definition flask_create_planet ::
  "int \<Rightarrow> pdict list \<Rightarrow> pdict \<Rightarrow> (failure + pdict) \<times> pdict list" where
  "flask_create_planet now planets_db data =
     (case data ''name'' of
        None \<Rightarrow> (Inl Crash, planets_db)
      | Some nm \<Rightarrow>
          (case first_where ''name'' nm planets_db of
             Inl e \<Rightarrow> (Inl e, planets_db)
           | Inr (Some existing) \<Rightarrow>
               (Inl (Status 400 ''Planet with this name already exists''), planets_db)
           | Inr None \<Rightarrow>
               (case new_id planets_db of
                  None \<Rightarrow> (Inl Crash, planets_db)
                | Some nid \<Rightarrow>
                    (case data ''planet_type'' of
                       None \<Rightarrow> (Inl Crash, planets_db)
                     | Some pt \<Rightarrow>
                         (case data ''distance_from_sun'' of
                            None \<Rightarrow> (Inl Crash, planets_db)
                          | Some dfs \<Rightarrow>
                              (case data ''radius'' of
                                 None \<Rightarrow> (Inl Crash, planets_db)
                               | Some rad \<Rightarrow>
                                   (let new_planet =
                                      [''id'' \<mapsto> nid,
                                       ''name'' \<mapsto> nm,
                                       ''planet_type'' \<mapsto> pt,
                                       ''distance_from_sun'' \<mapsto> dfs,
                                       ''radius'' \<mapsto> rad,
                                       ''description'' \<mapsto> py_get data ''description'',
                                       ''mass'' \<mapsto> py_get data ''mass'',
                                       ''orbital_period'' \<mapsto> py_get data ''orbital_period'',
                                       ''created_at'' \<mapsto> JInt now,
                                       ''updated_at'' \<mapsto> JInt now]
                                    in (Inr new_planet, planets_db @ [new_planet]))))))))"

text \<open>
  One step of \<^verbatim>\<open>for field, value in data.items()\<close> in \<^verbatim>\<open>update_planet\<close>; the request's
  object is the list of its items.
\<close>

definition update_field :: "string \<times> json \<Rightarrow> pdict \<Rightarrow> pdict" where
  "update_field item planet =
     (case item of
        (field, v) \<Rightarrow>
          if planet field \<noteq> None \<and> v \<noteq> JNull then planet(field \<mapsto> v) else planet)"

definition flask_update_planet ::
  "int \<Rightarrow> pdict list \<Rightarrow> int \<Rightarrow> (string \<times> json) list \<Rightarrow> (failure + pdict) \<times> pdict list" where
  "flask_update_planet now planets_db pid data =
     (case first_where ''id'' (JInt pid) planets_db of
        Inl e \<Rightarrow> (Inl e, planets_db)
      | Inr None \<Rightarrow> (Inl (Status 404 ''Planet not found''), planets_db)
      | Inr (Some i) \<Rightarrow>
          (let planet = (fold update_field data (planets_db ! i))(''updated_at'' \<mapsto> JInt now)
           in (Inr planet, planets_db[i := planet])))"

text \<open>\<^verbatim>\<open>[p for p in planets_db if p['id'] != planet_id]\<close>.\<close>

fun without_id :: "json \<Rightarrow> pdict list \<Rightarrow> pdict list option" where
  "without_id v [] = Some []"
| "without_id v (p # ps) =
     (case p ''id'' of
        None \<Rightarrow> None
      | Some w \<Rightarrow>
          (case without_id v ps of
             None \<Rightarrow> None
           | Some rest \<Rightarrow> Some (if py_eq w v then rest else p # rest)))"

definition flask_delete_planet ::
  "pdict list \<Rightarrow> int \<Rightarrow> (failure + unit) \<times> pdict list" where
  "flask_delete_planet planets_db pid =
     (case first_where ''id'' (JInt pid) planets_db of
        Inl e \<Rightarrow> (Inl e, planets_db)
      | Inr None \<Rightarrow> (Inl (Status 404 ''Planet not found''), planets_db)
      | Inr (Some i) \<Rightarrow>
          (case without_id (JInt pid) planets_db of
             None \<Rightarrow> (Inl Crash, planets_db)
           | Some rest \<Rightarrow> (Inr (), rest)))"

text \<open>
  A route under \<^verbatim>\<open>@token_required\<close>: \<^verbatim>\<open>decorated\<close> returns the guard's error response
  or calls the handler.
\<close>

definition flask_protected ::
  "jwt_decode \<Rightarrow> int \<Rightarrow> User list \<Rightarrow> string option \<Rightarrow> 's \<Rightarrow> ((failure + 'a) \<times> 's)
     \<Rightarrow> (failure + 'a) \<times> 's" where
  "flask_protected dec now users_db authorization db handler =
     (case token_required dec now users_db authorization of
        Inl e \<Rightarrow> (Inl e, db)
      | Inr current_user \<Rightarrow> handler)"

definition flask_post_planets ::
  "jwt_decode \<Rightarrow> int \<Rightarrow> User list \<Rightarrow> string option \<Rightarrow> pdict list \<Rightarrow> pdict \<Rightarrow> (failure + pdict) \<times> pdict list" where
  "flask_post_planets dec now users_db authorization planets_db data =
     flask_protected dec now users_db authorization planets_db
       (flask_create_planet now planets_db data)"

definition flask_put_planet ::
  "jwt_decode \<Rightarrow> int \<Rightarrow> User list \<Rightarrow> string option \<Rightarrow> pdict list \<Rightarrow> int \<Rightarrow> (string \<times> json) list \<Rightarrow> (failure + pdict) \<times> pdict list" where
  "flask_put_planet dec now users_db authorization planets_db pid data =
     flask_protected dec now users_db authorization planets_db
       (flask_update_planet now planets_db pid data)"

definition flask_delete_planet_route ::
  "jwt_decode \<Rightarrow> int \<Rightarrow> User list \<Rightarrow> string option \<Rightarrow> pdict list \<Rightarrow> int \<Rightarrow> (failure + unit) \<times> pdict list" where
  "flask_delete_planet_route dec now users_db authorization planets_db pid =
     flask_protected dec now users_db authorization planets_db
       (flask_delete_planet planets_db pid)"

subsection \<open>An instance of the library interfaces\<close>

text \<open>
  A table-driven codec and a transparent password check, small enough to evaluate, on
  which the properties below are run at concrete requests. The password check raises
  where the hashing context does: on a password with a NUL character and on a hash
  without its marker. The codec knows two tokens,
  both expiring at the instant 5000 and both accepted only under \<^verbatim>\<open>HS256\<close>: one for the
  subject \<^verbatim>\<open>alice\<close> and one for a subject that has no account.
\<close>

definition demo_dec :: jwt_decode where
  "demo_dec now token key algs =
     (if ''HS256'' \<in> set algs \<and> now \<le> 5000
      then (if token = ''tok.alice''
            then Some [''sub'' \<mapsto> JStr ''alice'', ''exp'' \<mapsto> JInt 5000]
            else if token = ''tok.ghost''
            then Some [''sub'' \<mapsto> JStr ''ghost'', ''exp'' \<mapsto> JInt 5000]
            else None)
      else None)"

definition demo_enc :: jwt_encode where
  "demo_enc payload key alg =
     (if payload ''sub'' = Some (JStr ''alice'') then ''tok.alice'' else ''tok.ghost'')"

definition demo_pv :: crypt_verify where
  "demo_pv plain hashed =
     (if CHR 0x00 \<in> set plain then None
      else if take 1 hashed = ''#'' then Some (hashed = ''#'' @ plain)
      else None)"

definition alice :: User where
  "alice = \<lparr>user_id = 1, username = ''alice'', email = ''alice@planets.com'',
            hashed_password = ''#wonderland'', is_active = False, user_created_at = 0\<rparr>"

definition bob :: User where
  "bob = \<lparr>user_id = 2, username = ''bob'', email = ''bob@planets.com'',
          hashed_password = ''#builder'', is_active = True, user_created_at = 0\<rparr>"

definition demo_users :: "User list" where
  "demo_users = [alice, bob]"

definition earth :: Planet where
  "earth = \<lparr>planet_id = 1, name = Some ''Earth'', planet_type = Some ''Terrestrial'',
            distance_from_sun = Some 1, radius = Some 6371, description = Some ''Home'',
            mass = None, orbital_period = Some 365, created_at = 0, updated_at = 0\<rparr>"

definition mars :: Planet where
  "mars = \<lparr>planet_id = 2, name = Some ''Mars'', planet_type = Some ''Terrestrial'',
           distance_from_sun = Some 2, radius = Some 3389, description = None,
           mass = None, orbital_period = None, created_at = 0, updated_at = 0\<rparr>"

definition earth_again :: PlanetCreate where
  "earth_again = \<lparr>c_name = ''Earth'', c_planet_type = ''Gas Giant'', c_distance_from_sun = 5,
                  c_radius = 5000, c_description = None, c_mass = None,
                  c_orbital_period = None\<rparr>"

definition new_description :: PlanetUpdate where
  "new_description = \<lparr>u_name = None, u_planet_type = None, u_distance_from_sun = None,
                      u_radius = None, u_description = Some (Some ''Updated description''),
                      u_mass = None, u_orbital_period = None\<rparr>"

definition earth_dict :: pdict where
  "earth_dict = [''id'' \<mapsto> JInt 1, ''name'' \<mapsto> JStr ''Earth'', ''description'' \<mapsto> JStr ''Home'',
                 ''updated_at'' \<mapsto> JInt 0]"

definition mars_dict :: pdict where
  "mars_dict = [''id'' \<mapsto> JInt 2, ''name'' \<mapsto> JStr ''Mars'', ''description'' \<mapsto> JNull,
                ''updated_at'' \<mapsto> JInt 0]"

text \<open>The demo planets after a request that gives only a description.\<close>

definition earth_updated :: Planet where
  "earth_updated = earth\<lparr>description := Some ''Updated description'', updated_at := 1000\<rparr>"

definition mars_dict_updated :: pdict where
  "mars_dict_updated = mars_dict(''description'' \<mapsto> JStr ''Dusty'', ''updated_at'' \<mapsto> JInt 1000)"

section \<open>Properties\<close>

subsection \<open>Token expiry\<close>

text \<open>
  What \<^verbatim>\<open>create_access_token\<close> puts into the claims: the expiry \<open>now + t\<close> for a ttl
  \<open>t\<close> other than zero, \<open>now\<close> plus 30 minutes without a ttl, and the caller's claims
  otherwise.
\<close>

lemma to_encode_expiry:
  "t \<noteq> 0 \<Longrightarrow> to_encode now data (Some t) ''exp'' = Some (JInt (now + t))"
  "to_encode now data None ''exp'' = Some (JInt (now + 1800))"
  "k \<noteq> ''exp'' \<Longrightarrow> to_encode now data expires_delta k = data k"
  by (simp_all add: to_encode_def minutes_def ACCESS_TOKEN_EXPIRE_MINUTES_def Let_def)

text \<open>
  C3. A token issued with the ttl \<open>t\<close> should carry the expiry \<open>now + t\<close>. At the ttl
  zero the source does not: \<^verbatim>\<open>if expires_delta:\<close> takes \<^verbatim>\<open>timedelta(0)\<close> for an absent
  ttl, and the token issued at the instant 1000 carries the expiry 1000 + 30 minutes
  = 2800 instead of 1000; the call is indistinguishable from one without a ttl, in
  both modules.
\<close>

theorem zero_ttl_falls_back_to_default:
  "to_encode 1000 [''sub'' \<mapsto> JStr ''testuser''] (Some 0) ''exp'' = Some (JInt 2800)
   \<and> to_encode 1000 [''sub'' \<mapsto> JStr ''testuser''] (Some 0) ''exp'' \<noteq> Some (JInt (1000 + 0))
   \<and> app_create_access_token enc 1000 [''sub'' \<mapsto> JStr ''testuser''] (Some 0)
       = app_create_access_token enc 1000 [''sub'' \<mapsto> JStr ''testuser''] None
   \<and> flask_create_access_token enc 1000 [''sub'' \<mapsto> JStr ''testuser''] (Some 0)
       = flask_create_access_token enc 1000 [''sub'' \<mapsto> JStr ''testuser''] None"
  by (simp add: to_encode_def app_create_access_token_def flask_create_access_token_def
      minutes_def ACCESS_TOKEN_EXPIRE_MINUTES_def)

subsection \<open>Helper facts about headers\<close>

lemma split_on_no_sep: "c \<notin> set t \<Longrightarrow> split_on c t = [t]"
  by (induction t) auto

lemma bearer_prefix_scheme:
  assumes "take 7 h = ''Bearer ''"
  shows "hd (split_on CHR '' '' h) = ''Bearer''"
proof -
  have "h = ''Bearer '' @ drop 7 h"
    using assms append_take_drop_id [of 7 h] by simp
  then obtain r where "h = ''Bearer '' @ r" ..
  then show ?thesis by simp
qed

lemma HTTPBearer_bearer:
  "token \<noteq> [] \<Longrightarrow>
   HTTPBearer (Some (''Bearer '' @ token)) = Inr \<lparr>scheme = ''Bearer'', credentials = token\<rparr>"
  by (simp add: HTTPBearer_def)

lemma token_required_status:
  "token_required dec now users authorization = Inl e \<Longrightarrow> status_code e = 401"
  by (auto simp: token_required_def Let_def split: option.splits list.splits if_splits sum.splits)

subsection \<open>The two rejection surfaces\<close>

text \<open>
  C1, as stated, fails on \<^verbatim>\<open>flask_app.py\<close>: a request without an Authorization header,
  and one with the header \<^verbatim>\<open>Token abc\<close>, are rejected by \<^verbatim>\<open>token_required\<close> with 401,
  not with 403.
\<close>

theorem flask_guard_counterexample:
  "\<not> rejected_with 403 (token_required demo_dec 1000 demo_users None)
   \<and> rejected_with 401 (token_required demo_dec 1000 demo_users None)
   \<and> \<not> rejected_with 403 (token_required demo_dec 1000 demo_users (Some ''Token abc''))
   \<and> rejected_with 401 (token_required demo_dec 1000 demo_users (Some ''Token abc''))"
  by (simp add: rejected_with_def token_required_def flask_verify_token_def demo_dec_def
      ALGORITHM_def)

text \<open>
  C1, amended. In \<^verbatim>\<open>app.py\<close> the two surfaces are as the claim has them: a request
  without the header, or whose header's scheme (the text before the first space) is not
  \<^verbatim>\<open>Bearer\<close>, is rejected with 403, and a bearer token that fails verification with 401.
  In \<^verbatim>\<open>flask_app.py\<close> there is one surface: a request without the header is rejected
  with 401 (\<^verbatim>\<open>Token is missing\<close>), a bearer token that fails verification with 401
  (\<^verbatim>\<open>Token is invalid\<close>), and whatever the guard rejects, it rejects with 401.
\<close>

theorem guard_rejection_surfaces:
  "rejected_with 403 (app_guard dec now users None)
   \<and> (hd (split_on CHR '' '' h) \<noteq> ''Bearer''
        \<longrightarrow> rejected_with 403 (app_guard dec now users (Some h)))
   \<and> (token \<noteq> [] \<and> dec now token app_SECRET_KEY [ALGORITHM] = None
        \<longrightarrow> app_guard dec now users (Some (''Bearer '' @ token))
              = Inl (Status 401 ''Could not validate credentials''))
   \<and> token_required dec now users None = Inl (Status 401 ''Token is missing'')
   \<and> (token' \<noteq> [] \<and> CHR '' '' \<notin> set token'
        \<and> dec now token' flask_SECRET_KEY [ALGORITHM] = None
        \<longrightarrow> token_required dec now users (Some (''Bearer '' @ token'))
              = Inl (Status 401 ''Token is invalid''))
   \<and> (token_required dec now users authorization = Inl e \<longrightarrow> status_code e = 401)"
proof (intro conjI impI)
  show "rejected_with 403 (app_guard dec now users None)"
    by (simp add: rejected_with_def app_guard_def HTTPBearer_def)
next
  assume "hd (split_on CHR '' '' h) \<noteq> ''Bearer''"
  then have "take 7 h \<noteq> ''Bearer ''"
    using bearer_prefix_scheme by blast
  then show "rejected_with 403 (app_guard dec now users (Some h))"
    by (simp add: rejected_with_def app_guard_def HTTPBearer_def)
next
  assume "token \<noteq> [] \<and> dec now token app_SECRET_KEY [ALGORITHM] = None"
  then show "app_guard dec now users (Some (''Bearer '' @ token))
              = Inl (Status 401 ''Could not validate credentials'')"
    using HTTPBearer_bearer [of token]
    by (simp add: app_guard_def get_current_user_def app_verify_token_def
        credentials_exception_def)
next
  show "token_required dec now users None = Inl (Status 401 ''Token is missing'')"
    by (simp add: token_required_def)
next
  assume "token' \<noteq> [] \<and> CHR '' '' \<notin> set token'
        \<and> dec now token' flask_SECRET_KEY [ALGORITHM] = None"
  then show "token_required dec now users (Some (''Bearer '' @ token'))
              = Inl (Status 401 ''Token is invalid'')"
    by (simp add: token_required_def split_on_no_sep flask_verify_token_def)
next
  assume "token_required dec now users authorization = Inl e"
  then show "status_code e = 401" by (rule token_required_status)
qed

text \<open>
  The amended C1 at concrete requests, made when the demo tokens have expired: a wrong
  scheme, an expired bearer token in each module, and a header without a token.
\<close>

theorem guard_rejection_surfaces_witness:
  "rejected_with 403 (app_guard demo_dec 6000 demo_users (Some ''Token abc''))
   \<and> app_guard demo_dec 6000 demo_users (Some ''Bearer tok.alice'')
       = Inl (Status 401 ''Could not validate credentials'')
   \<and> token_required demo_dec 6000 demo_users (Some ''Bearer tok.alice'')
       = Inl (Status 401 ''Token is invalid'')
   \<and> token_required demo_dec 6000 demo_users (Some ''Bearer'')
       = Inl (Status 401 ''Token is missing'')
   \<and> status_code (Status 401 ''Token is missing'') = 401"
proof -
  have h1: "hd (split_on CHR '' '' ''Token abc'') \<noteq> ''Bearer''" by simp
  have h2: "''tok.alice'' \<noteq> [] \<and> demo_dec 6000 ''tok.alice'' app_SECRET_KEY [ALGORITHM] = None"
    by (simp add: demo_dec_def)
  have h3: "''tok.alice'' \<noteq> [] \<and> CHR '' '' \<notin> set ''tok.alice''
        \<and> demo_dec 6000 ''tok.alice'' flask_SECRET_KEY [ALGORITHM] = None"
    by (simp add: demo_dec_def)
  have h4: "token_required demo_dec 6000 demo_users (Some ''Bearer'')
        = Inl (Status 401 ''Token is missing'')"
    by (simp add: token_required_def)
  from guard_rejection_surfaces [of demo_dec 6000 demo_users "''Token abc''" "''tok.alice''"
      "''tok.alice''" "Some ''Bearer''" "Status 401 ''Token is missing''"] h1 h2 h3 h4
  show ?thesis by simp
qed

subsection \<open>Credential verification\<close>

lemma find_username_unique:
  "distinct (map username db) \<Longrightarrow>
   (find (\<lambda>u. username u = uname) db = Some user) = (user \<in> set db \<and> username user = uname)"
  by (induction db) (auto simp: image_iff)

lemma authenticate_user_found:
  "find (\<lambda>u. username u = uname) db = Some user \<Longrightarrow>
   authenticate_user pv db uname password
     = (case pv password (hashed_password user) of
          None \<Rightarrow> Inl Crash
        | Some verdict \<Rightarrow> if verdict then Inr (Some user) else Inr None)"
  by (simp add: authenticate_user_def verify_password_def split: option.splits)

lemma authenticate_user_unknown:
  "uname \<notin> username ` set db \<Longrightarrow> authenticate_user pv db uname password = Inr None"
proof -
  assume "uname \<notin> username ` set db"
  then have "find (\<lambda>u. username u = uname) db = None"
    by (auto simp: find_None_iff)
  then show ?thesis by (simp add: authenticate_user_def)
qed


text \<open>
  What \<^verbatim>\<open>authenticate_user\<close> does when usernames are unique among the stored principals
  (the table's \<^verbatim>\<open>unique=True\<close>). It returns a principal exactly when that principal is
  stored, has the given username, compared as the strings are, and the password check
  answers true. It returns \<^verbatim>\<open>None\<close> exactly when no stored principal has the username
  or the one that has it makes the check answer false. It raises exactly when the one
  that has the username makes the check raise.
\<close>

lemma authenticate_user_returns_principal:
  assumes "distinct (map username db)"
  shows "(authenticate_user pv db uname password = Inr (Some user))
           = (user \<in> set db \<and> username user = uname
              \<and> pv password (hashed_password user) = Some True)"
proof (cases "find (\<lambda>u. username u = uname) db")
  case None
  then have "authenticate_user pv db uname password = Inr None"
    by (simp add: authenticate_user_def)
  moreover have "\<not> (user \<in> set db \<and> username user = uname)"
    using None find_username_unique [OF assms, of uname user] by simp
  ultimately show ?thesis by auto
next
  case (Some x)
  have "(user \<in> set db \<and> username user = uname) = (x = user)"
    using Some find_username_unique [OF assms, of uname user] by simp
  then show ?thesis
    using authenticate_user_found [OF Some, of pv password]
    by (cases "pv password (hashed_password x)") auto
qed

lemma authenticate_user_returns_none:
  assumes "distinct (map username db)"
  shows "(authenticate_user pv db uname password = Inr None)
           = (\<forall>u \<in> set db. username u = uname
                \<longrightarrow> pv password (hashed_password u) = Some False)"
proof (cases "find (\<lambda>u. username u = uname) db")
  case None
  then have "authenticate_user pv db uname password = Inr None"
    by (simp add: authenticate_user_def)
  moreover have "\<forall>u \<in> set db. username u \<noteq> uname"
    using None by (simp add: find_None_iff)
  ultimately show ?thesis by blast
next
  case (Some x)
  have mem: "x \<in> set db" "username x = uname"
    using Some find_username_unique [OF assms, of uname x] by simp_all
  have uniq: "u = x" if "u \<in> set db" "username u = uname" for u
    using that Some find_username_unique [OF assms, of uname u] by simp
  have "(\<forall>u \<in> set db. username u = uname \<longrightarrow> pv password (hashed_password u) = Some False)
      = (pv password (hashed_password x) = Some False)"
    using mem uniq by blast
  moreover have "(authenticate_user pv db uname password = Inr None)
      = (pv password (hashed_password x) = Some False)"
    using authenticate_user_found [OF Some, of pv password]
    by (cases "pv password (hashed_password x)") auto
  ultimately show ?thesis by simp
qed

lemma authenticate_user_raises:
  assumes "distinct (map username db)"
  shows "(authenticate_user pv db uname password = Inl Crash)
           = (\<exists>u \<in> set db. username u = uname \<and> pv password (hashed_password u) = None)"
proof (cases "find (\<lambda>u. username u = uname) db")
  case None
  then have "authenticate_user pv db uname password = Inr None"
    by (simp add: authenticate_user_def)
  moreover have "\<forall>u \<in> set db. username u \<noteq> uname"
    using None by (simp add: find_None_iff)
  ultimately show ?thesis by auto
next
  case (Some x)
  have mem: "x \<in> set db" "username x = uname"
    using Some find_username_unique [OF assms, of uname x] by simp_all
  have uniq: "u = x" if "u \<in> set db" "username u = uname" for u
    using that Some find_username_unique [OF assms, of uname u] by simp
  have "(\<exists>u \<in> set db. username u = uname \<and> pv password (hashed_password u) = None)
      = (pv password (hashed_password x) = None)"
    using mem uniq by blast
  moreover have "(authenticate_user pv db uname password = Inl Crash)
      = (pv password (hashed_password x) = None)"
    using authenticate_user_found [OF Some, of pv password]
    by (cases "pv password (hashed_password x)") auto
  ultimately show ?thesis by simp
qed

text \<open>
  C2. The no-match signal should be the same for an unknown username and for a wrong
  password, and \<^verbatim>\<open>authenticate_user\<close> should return \<^verbatim>\<open>None\<close> whenever it does not
  return the principal. With a password that makes the hashing context raise (here
  one with a NUL character) the source does neither: for the stored username
  \<^verbatim>\<open>alice\<close> the error leaves \<^verbatim>\<open>authenticate_user\<close> and both logins unhandled (a 500
  response), while for the unknown username \<^verbatim>\<open>carol\<close> the check is never reached,
  \<^verbatim>\<open>authenticate_user\<close> returns \<^verbatim>\<open>None\<close> and both logins answer 401.
\<close>

theorem raising_check_tells_known_from_unknown:
  "authenticate_user demo_pv demo_users ''alice'' [CHR ''p'', CHR 0x00] = Inl Crash
   \<and> authenticate_user demo_pv demo_users ''carol'' [CHR ''p'', CHR 0x00] = Inr None
   \<and> app_login demo_pv demo_enc 1000 demo_users ''alice'' [CHR ''p'', CHR 0x00] = Inl Crash
   \<and> app_login demo_pv demo_enc 1000 demo_users ''carol'' [CHR ''p'', CHR 0x00]
       = Inl (Status 401 ''Incorrect username or password'')
   \<and> flask_login demo_pv demo_enc 1000 demo_users
         [''username'' \<mapsto> JStr ''alice'', ''password'' \<mapsto> JStr [CHR ''p'', CHR 0x00]]
       = Inl Crash
   \<and> flask_login demo_pv demo_enc 1000 demo_users
         [''username'' \<mapsto> JStr ''carol'', ''password'' \<mapsto> JStr [CHR ''p'', CHR 0x00]]
       = Inl (Status 401 ''Incorrect username or password'')
   \<and> status_code Crash = 500"
  by (simp add: authenticate_user_def verify_password_def app_login_def flask_login_def
      py_get_def demo_pv_def demo_users_def alice_def bob_def)

subsection \<open>A verified token for an unknown subject\<close>






subsection \<open>The active flag\<close>









subsection \<open>Guarded resource operations\<close>

lemma demo_app_guard_alice:
  "app_guard demo_dec 1000 demo_users (Some ''Bearer tok.alice'') = Inr alice"
  by (simp add: app_guard_def HTTPBearer_def get_current_user_def app_verify_token_def
      demo_dec_def ALGORITHM_def py_get_def demo_users_def alice_def)

lemma demo_token_required_alice:
  "token_required demo_dec 1000 demo_users (Some ''Bearer tok.alice'') = Inr alice"
  by (simp add: token_required_def flask_verify_token_def
      demo_dec_def ALGORITHM_def py_get_def demo_users_def alice_def)

lemma first_where_absent:
  "(\<forall>p \<in> set ps. \<exists>w. p k = Some w \<and> \<not> py_eq w v) \<Longrightarrow> first_where k v ps = Inr None"
  by (induction ps) auto

lemma first_where_found:
  "(\<forall>p \<in> set ps. p k \<noteq> None) \<Longrightarrow> (\<exists>p \<in> set ps. py_eq (py_get p k) v) \<Longrightarrow>
   \<exists>i. first_where k v ps = Inr (Some i) \<and> i < length ps \<and> py_eq (py_get (ps ! i) k) v"
proof (induction ps)
  case Nil
  then show ?case by simp
next
  case (Cons p ps)
  from Cons.prems(1) obtain w where w: "p k = Some w" by auto
  show ?case
  proof (cases "py_eq w v")
    case True
    then show ?thesis using w by (simp add: py_get_def)
  next
    case False
    then have "\<exists>q \<in> set ps. py_eq (py_get q k) v"
      using Cons.prems(2) w by (auto simp: py_get_def)
    moreover have "\<forall>q \<in> set ps. q k \<noteq> None" using Cons.prems(1) by simp
    ultimately obtain i where "first_where k v ps = Inr (Some i)" "i < length ps"
      "py_eq (py_get (ps ! i) k) v"
      using Cons.IH by blast
    then show ?thesis using w False by auto
  qed
qed

lemma app_protected_pass:
  "app_guard dec now users authorization = Inr current_user \<Longrightarrow>
   app_protected dec now users authorization db handler = handler"
  by (simp add: app_protected_def)

lemma flask_protected_pass:
  "token_required dec now users authorization = Inr current_user \<Longrightarrow>
   flask_protected dec now users authorization db handler = handler"
  by (simp add: flask_protected_def)

text \<open>
  C7. A create request that passes the guard and whose name is the name of a stored
  planet gets the 400 response, and the store is as it was. In \<^verbatim>\<open>flask_app.py\<close> names
  are compared with Python's \<^verbatim>\<open>==\<close>, and every stored dictionary has the key
  \<^verbatim>\<open>name\<close>, as all dictionaries that the module builds do.
\<close>

theorem duplicate_name_conflict:
  "(app_guard dec now users authorization = Inr current_user
      \<and> existing \<in> set db \<and> name existing = Some (c_name planet)
      \<longrightarrow> app_post_planets dec now users authorization db planet
            = (Inl (Status 400 ''Planet with this name already exists''), db))
   \<and> (token_required dec now users authorization' = Inr current_user'
      \<and> data ''name'' = Some nm
      \<and> (\<forall>p \<in> set planets_db. p ''name'' \<noteq> None)
      \<and> (\<exists>p \<in> set planets_db. py_eq (py_get p ''name'') nm)
      \<longrightarrow> flask_post_planets dec now users authorization' planets_db data
            = (Inl (Status 400 ''Planet with this name already exists''), planets_db))"
proof (intro conjI impI)
  assume a: "app_guard dec now users authorization = Inr current_user
      \<and> existing \<in> set db \<and> name existing = Some (c_name planet)"
  then have "find (\<lambda>p. name p = Some (c_name planet)) db \<noteq> None"
    by (auto simp: find_None_iff)
  then obtain e where "find (\<lambda>p. name p = Some (c_name planet)) db = Some e" by blast
  then have "app_create_planet now db planet
      = (Inl (Status 400 ''Planet with this name already exists''), db)"
    by (simp add: app_create_planet_def)
  then show "app_post_planets dec now users authorization db planet
            = (Inl (Status 400 ''Planet with this name already exists''), db)"
    using a by (simp add: app_post_planets_def app_protected_pass)
next
  assume a: "token_required dec now users authorization' = Inr current_user'
      \<and> data ''name'' = Some nm
      \<and> (\<forall>p \<in> set planets_db. p ''name'' \<noteq> None)
      \<and> (\<exists>p \<in> set planets_db. py_eq (py_get p ''name'') nm)"
  then obtain i where "first_where ''name'' nm planets_db = Inr (Some i)"
    using first_where_found [of planets_db "''name''" nm] by blast
  then have "flask_create_planet now planets_db data
      = (Inl (Status 400 ''Planet with this name already exists''), planets_db)"
    using a by (simp add: flask_create_planet_def)
  then show "flask_post_planets dec now users authorization' planets_db data
            = (Inl (Status 400 ''Planet with this name already exists''), planets_db)"
    using a by (simp add: flask_post_planets_def flask_protected_pass)
qed

text \<open>C7 on the demo stores, with the demo principal's token.\<close>

theorem duplicate_name_conflict_witness:
  "app_guard demo_dec 1000 demo_users (Some ''Bearer tok.alice'') = Inr alice
   \<and> app_post_planets demo_dec 1000 demo_users (Some ''Bearer tok.alice'') [earth, mars] earth_again
       = (Inl (Status 400 ''Planet with this name already exists''), [earth, mars])
   \<and> token_required demo_dec 1000 demo_users (Some ''Bearer tok.alice'') = Inr alice
   \<and> flask_post_planets demo_dec 1000 demo_users (Some ''Bearer tok.alice'')
         [earth_dict, mars_dict] [''name'' \<mapsto> JStr ''Mars'', ''radius'' \<mapsto> JInt 1]
       = (Inl (Status 400 ''Planet with this name already exists''), [earth_dict, mars_dict])"
proof -
  note g1 = demo_app_guard_alice
  note g2 = demo_token_required_alice
  have h1: "earth \<in> set [earth, mars] \<and> name earth = Some (c_name earth_again)"
    by (simp add: earth_def earth_again_def)
  have h2: "[''name'' \<mapsto> JStr ''Mars'', ''radius'' \<mapsto> JInt 1] ''name'' = Some (JStr ''Mars'')
      \<and> (\<forall>p \<in> set [earth_dict, mars_dict]. p ''name'' \<noteq> None)
      \<and> (\<exists>p \<in> set [earth_dict, mars_dict]. py_eq (py_get p ''name'') (JStr ''Mars''))"
    by (simp add: earth_dict_def mars_dict_def py_get_def py_eq_def)
  from duplicate_name_conflict [of demo_dec 1000 demo_users "Some ''Bearer tok.alice''" alice
      earth "[earth, mars]" earth_again "Some ''Bearer tok.alice''" alice
      "[''name'' \<mapsto> JStr ''Mars'', ''radius'' \<mapsto> JInt 1]" "JStr ''Mars''" "[earth_dict, mars_dict]"]
    g1 g2 h1 h2
  show ?thesis by blast
qed

text \<open>
  An update or delete request that passes the guard and names an id that no stored
  planet has gets the 404 response, and the store is as it was: in \<^verbatim>\<open>app.py\<close> for
  every id that the store can bind, in \<^verbatim>\<open>flask_app.py\<close> for every id.
\<close>

lemma absent_id_not_found:
  "(app_guard dec now users authorization = Inr current_user
      \<and> sqlite_int pid
      \<and> (\<forall>p \<in> set db. planet_id p \<noteq> pid)
      \<longrightarrow> app_put_planet dec now users authorization db pid planet_update
            = (Inl (Status 404 ''Planet not found''), db)
        \<and> app_delete_planet_route dec now users authorization db pid
            = (Inl (Status 404 ''Planet not found''), db))
   \<and> (token_required dec now users authorization' = Inr current_user'
      \<and> (\<forall>p \<in> set planets_db. \<exists>w. p ''id'' = Some w \<and> \<not> py_eq w (JInt pid'))
      \<longrightarrow> flask_put_planet dec now users authorization' planets_db pid' data
            = (Inl (Status 404 ''Planet not found''), planets_db)
        \<and> flask_delete_planet_route dec now users authorization' planets_db pid'
            = (Inl (Status 404 ''Planet not found''), planets_db))"
proof (intro conjI impI)
  assume a: "app_guard dec now users authorization = Inr current_user
      \<and> sqlite_int pid
      \<and> (\<forall>p \<in> set db. planet_id p \<noteq> pid)"
  then have none: "find (\<lambda>p. planet_id p = pid) db = None"
    by (simp add: find_None_iff)
  show "app_put_planet dec now users authorization db pid planet_update
            = (Inl (Status 404 ''Planet not found''), db)"
    using a none by (simp add: app_put_planet_def app_protected_pass app_update_planet_def)
  show "app_delete_planet_route dec now users authorization db pid
            = (Inl (Status 404 ''Planet not found''), db)"
    using a none by (simp add: app_delete_planet_route_def app_protected_pass app_delete_planet_def)
next
  assume a: "token_required dec now users authorization' = Inr current_user'
      \<and> (\<forall>p \<in> set planets_db. \<exists>w. p ''id'' = Some w \<and> \<not> py_eq w (JInt pid'))"
  then have none: "first_where ''id'' (JInt pid') planets_db = Inr None"
    using first_where_absent [of planets_db "''id''" "JInt pid'"] by blast
  show "flask_put_planet dec now users authorization' planets_db pid' data
            = (Inl (Status 404 ''Planet not found''), planets_db)"
    using a none by (simp add: flask_put_planet_def flask_protected_pass flask_update_planet_def)
  show "flask_delete_planet_route dec now users authorization' planets_db pid'
            = (Inl (Status 404 ''Planet not found''), planets_db)"
    using a none
    by (simp add: flask_delete_planet_route_def flask_protected_pass flask_delete_planet_def)
qed

text \<open>
  C8. An authenticated update or delete of an id that is not in the store should get
  the 404 response. For the id 9223372036854775808, the first integer that the store
  of \<^verbatim>\<open>app.py\<close> cannot bind, it does not: the query for the row raises before
  \<^verbatim>\<open>if not db_planet\<close> is reached, no handler catches the error, and the request
  ends in a 500 response. The store is unchanged. \<^verbatim>\<open>flask_app.py\<close> answers 404 for the
  same id.
\<close>

theorem unbindable_id_crashes:
  "app_guard demo_dec 1000 demo_users (Some ''Bearer tok.alice'') = Inr alice
   \<and> list_all (\<lambda>p. planet_id p \<noteq> 9223372036854775808) [earth, mars]
   \<and> app_put_planet demo_dec 1000 demo_users (Some ''Bearer tok.alice'') [earth, mars]
         9223372036854775808 new_description
       = (Inl Crash, [earth, mars])
   \<and> app_delete_planet_route demo_dec 1000 demo_users (Some ''Bearer tok.alice'') [earth, mars]
         9223372036854775808
       = (Inl Crash, [earth, mars])
   \<and> status_code Crash = 500
   \<and> flask_put_planet demo_dec 1000 demo_users (Some ''Bearer tok.alice'')
         [earth_dict, mars_dict] 9223372036854775808
         [(''description'', JStr ''Updated description'')]
       = (Inl (Status 404 ''Planet not found''), [earth_dict, mars_dict])
   \<and> flask_delete_planet_route demo_dec 1000 demo_users (Some ''Bearer tok.alice'')
         [earth_dict, mars_dict] 9223372036854775808
       = (Inl (Status 404 ''Planet not found''), [earth_dict, mars_dict])"
proof -
  have big: "\<not> sqlite_int 9223372036854775808"
    by (simp add: sqlite_int_def)
  have g1: "app_protected demo_dec 1000 demo_users (Some ''Bearer tok.alice'') db handler = handler"
    for db :: "Planet list" and handler :: "(failure + 'a) \<times> Planet list"
    using demo_app_guard_alice by (rule app_protected_pass)
  have g2: "flask_protected demo_dec 1000 demo_users (Some ''Bearer tok.alice'') db handler = handler"
    for db :: "pdict list" and handler :: "(failure + 'a) \<times> pdict list"
    using demo_token_required_alice by (rule flask_protected_pass)
  have 1: "list_all (\<lambda>p. planet_id p \<noteq> 9223372036854775808) [earth, mars]"
    by (simp add: earth_def mars_def)
  have 2: "app_put_planet demo_dec 1000 demo_users (Some ''Bearer tok.alice'') [earth, mars]
         9223372036854775808 new_description
       = (Inl Crash, [earth, mars])"
    using big by (simp add: app_put_planet_def g1 app_update_planet_def)
  have 3: "app_delete_planet_route demo_dec 1000 demo_users (Some ''Bearer tok.alice'')
         [earth, mars] 9223372036854775808
       = (Inl Crash, [earth, mars])"
    using big by (simp add: app_delete_planet_route_def g1 app_delete_planet_def)
  have none: "first_where ''id'' (JInt 9223372036854775808) [earth_dict, mars_dict] = Inr None"
    by (simp add: earth_dict_def mars_dict_def py_eq_def)
  have 4: "flask_put_planet demo_dec 1000 demo_users (Some ''Bearer tok.alice'')
         [earth_dict, mars_dict] 9223372036854775808
         [(''description'', JStr ''Updated description'')]
       = (Inl (Status 404 ''Planet not found''), [earth_dict, mars_dict])"
    using none by (simp add: flask_put_planet_def g2 flask_update_planet_def)
  have 5: "flask_delete_planet_route demo_dec 1000 demo_users (Some ''Bearer tok.alice'')
         [earth_dict, mars_dict] 9223372036854775808
       = (Inl (Status 404 ''Planet not found''), [earth_dict, mars_dict])"
    using none by (simp add: flask_delete_planet_route_def g2 flask_delete_planet_def)
  show ?thesis
    using demo_app_guard_alice 1 2 3 4 5 by simp
qed

subsection \<open>Partial update\<close>

lemma find_id_unique:
  "distinct (map planet_id db) \<Longrightarrow> old \<in> set db \<Longrightarrow>
   find (\<lambda>p. planet_id p = planet_id old) db = Some old"
  by (induction db) (auto simp: image_iff)

lemma same_id_same_row:
  "distinct (map planet_id db) \<Longrightarrow> old \<in> set db \<Longrightarrow> i < length db \<Longrightarrow>
   (planet_id (db ! i) = planet_id old) = (db ! i = old)"
  by (auto simp: distinct_map dest: inj_onD)

lemma setattrs_frame:
  "planet_id (setattrs upd p) = planet_id p
   \<and> created_at (setattrs upd p) = created_at p
   \<and> updated_at (setattrs upd p) = updated_at p
   \<and> (u_name upd = None \<longrightarrow> name (setattrs upd p) = name p)
   \<and> (u_planet_type upd = None \<longrightarrow> planet_type (setattrs upd p) = planet_type p)
   \<and> (u_distance_from_sun upd = None
        \<longrightarrow> distance_from_sun (setattrs upd p) = distance_from_sun p)
   \<and> (u_radius upd = None \<longrightarrow> radius (setattrs upd p) = radius p)
   \<and> (u_description upd = None \<longrightarrow> description (setattrs upd p) = description p)
   \<and> (u_mass upd = None \<longrightarrow> mass (setattrs upd p) = mass p)
   \<and> (u_orbital_period upd = None \<longrightarrow> orbital_period (setattrs upd p) = orbital_period p)"
  by (simp add: setattrs_def Let_def split: option.splits)

lemma replace_row_nth:
  "i < length db \<Longrightarrow>
   replace_row s db ! i = (if planet_id (db ! i) = planet_id s then s else db ! i)"
  by (simp add: replace_row_def)

lemma app_update_planet_cases:
  assumes "find (\<lambda>p. planet_id p = pid) db = Some old"
    and "app_update_planet now db pid upd = (res, db')"
  shows "(db' = db \<and> (res = Inr old \<or> res = Inl Crash))
       \<or> (db' = replace_row ((setattrs upd old)\<lparr>updated_at := now\<rparr>) db
            \<and> res = Inr ((setattrs upd old)\<lparr>updated_at := now\<rparr>))"
  using assms by (auto simp: app_update_planet_def Let_def split: if_splits)

lemma update_field_other: "k \<noteq> fst item \<Longrightarrow> update_field item p k = p k"
  by (cases item) (simp add: update_field_def)

lemma fold_update_field_other:
  "k \<notin> fst ` set data \<Longrightarrow> fold update_field data p k = p k"
proof (induction data arbitrary: p)
  case Nil
  then show ?case by simp
next
  case (Cons item data)
  then have "fold update_field data (update_field item p) k = update_field item p k"
    by simp
  also have "\<dots> = p k"
    using Cons.prems by (simp add: update_field_other)
  finally show ?case by simp
qed

lemma app_update_frame:
  assumes a: "distinct (map planet_id db) \<and> old \<in> set db \<and> planet_id old = pid
      \<and> app_update_planet now db pid upd = (res, db')"
  shows "length db' = length db
        \<and> (\<forall>i < length db. db ! i \<noteq> old \<longrightarrow> db' ! i = db ! i)
        \<and> (\<forall>new. res = Inr new \<or> (\<exists>i < length db. db ! i = old \<and> new = db' ! i)
              \<longrightarrow> planet_id new = planet_id old
                \<and> created_at new = created_at old
                \<and> (u_name upd = None \<longrightarrow> name new = name old)
                \<and> (u_planet_type upd = None \<longrightarrow> planet_type new = planet_type old)
                \<and> (u_distance_from_sun upd = None
                     \<longrightarrow> distance_from_sun new = distance_from_sun old)
                \<and> (u_radius upd = None \<longrightarrow> radius new = radius old)
                \<and> (u_description upd = None \<longrightarrow> description new = description old)
                \<and> (u_mass upd = None \<longrightarrow> mass new = mass old)
                \<and> (u_orbital_period upd = None \<longrightarrow> orbital_period new = orbital_period old))"
proof -
  let ?stored = "(setattrs upd old)\<lparr>updated_at := now\<rparr>"
  let ?P = "\<lambda>new. planet_id new = planet_id old
                \<and> created_at new = created_at old
                \<and> (u_name upd = None \<longrightarrow> name new = name old)
                \<and> (u_planet_type upd = None \<longrightarrow> planet_type new = planet_type old)
                \<and> (u_distance_from_sun upd = None
                     \<longrightarrow> distance_from_sun new = distance_from_sun old)
                \<and> (u_radius upd = None \<longrightarrow> radius new = radius old)
                \<and> (u_description upd = None \<longrightarrow> description new = description old)
                \<and> (u_mass upd = None \<longrightarrow> mass new = mass old)
                \<and> (u_orbital_period upd = None \<longrightarrow> orbital_period new = orbital_period old)"
  have d: "distinct (map planet_id db)" and mem: "old \<in> set db" and pid: "planet_id old = pid"
    and run: "app_update_planet now db pid upd = (res, db')"
    using a by simp_all
  have found: "find (\<lambda>p. planet_id p = pid) db = Some old"
    using find_id_unique [OF d mem] pid by simp
  have id_stored: "planet_id ?stored = planet_id old"
    using setattrs_frame [of upd old] by simp
  have row: "(planet_id (db ! i) = planet_id old) = (db ! i = old)" if "i < length db" for i
    using same_id_same_row [OF d mem that] .
  have p_old: "?P old" by simp
  have p_stored: "?P ?stored"
    using setattrs_frame [of upd old] by simp
  from app_update_planet_cases [OF found run]
  consider (same) "db' = db" "res = Inr old \<or> res = Inl Crash"
    | (written) "db' = replace_row ?stored db" "res = Inr ?stored"
    by blast
  then show ?thesis
  proof cases
    case same
    have all: "\<forall>new. res = Inr new \<or> (\<exists>i < length db. db ! i = old \<and> new = db' ! i)
        \<longrightarrow> ?P new"
    proof (intro allI impI)
      fix new
      assume "res = Inr new \<or> (\<exists>i < length db. db ! i = old \<and> new = db' ! i)"
      with same have "new = old" by auto
      then show "?P new" by simp
    qed
    have len: "length db' = length db" using same(1) by simp
    have others: "\<forall>i < length db. db ! i \<noteq> old \<longrightarrow> db' ! i = db ! i"
      using same(1) by simp
    show ?thesis by (rule conjI [OF len conjI [OF others all]])
  next
    case written
    have nth: "db' ! i = (if db ! i = old then ?stored else db ! i)" if "i < length db" for i
      using that written(1) row [OF that] id_stored by (simp add: replace_row_nth)
    have all: "\<forall>new. res = Inr new \<or> (\<exists>i < length db. db ! i = old \<and> new = db' ! i)
        \<longrightarrow> ?P new"
    proof (intro allI impI)
      fix new
      assume "res = Inr new \<or> (\<exists>i < length db. db ! i = old \<and> new = db' ! i)"
      with written(2) nth have eq: "new = ?stored" by auto
      show "?P new" unfolding eq by (rule p_stored)
    qed
    have len: "length db' = length db"
      using written(1) by (simp add: replace_row_def)
    have others: "\<forall>i < length db. db ! i \<noteq> old \<longrightarrow> db' ! i = db ! i"
      using nth by simp
    show ?thesis by (rule conjI [OF len conjI [OF others all]])
  qed
qed

lemma flask_update_frame:
  assumes a: "(\<forall>p \<in> set planets_db. p ''id'' \<noteq> None)
      \<and> (\<exists>p \<in> set planets_db. py_eq (py_get p ''id'') (JInt pid'))
      \<and> flask_update_planet now planets_db pid' data = (res', planets_db')"
  shows "\<exists>i < length planets_db.
             py_eq (py_get (planets_db ! i) ''id'') (JInt pid')
           \<and> length planets_db' = length planets_db
           \<and> (\<forall>j < length planets_db. j \<noteq> i \<longrightarrow> planets_db' ! j = planets_db ! j)
           \<and> res' = Inr (planets_db' ! i)
           \<and> (\<forall>k. k \<notin> fst ` set data \<and> k \<noteq> ''updated_at''
                 \<longrightarrow> (planets_db' ! i) k = (planets_db ! i) k)"
proof -
  from a obtain i where i: "first_where ''id'' (JInt pid') planets_db = Inr (Some i)"
      "i < length planets_db" "py_eq (py_get (planets_db ! i) ''id'') (JInt pid')"
    using first_where_found [of planets_db "''id''" "JInt pid'"] by blast
  let ?planet = "(fold update_field data (planets_db ! i))(''updated_at'' \<mapsto> JInt now)"
  have r: "res' = Inr ?planet" "planets_db' = planets_db[i := ?planet]"
    using a i(1) by (simp_all add: flask_update_planet_def Let_def)
  have "\<forall>k. k \<notin> fst ` set data \<and> k \<noteq> ''updated_at''
                 \<longrightarrow> (planets_db' ! i) k = (planets_db ! i) k"
    using r i(2) by (simp add: fold_update_field_other)
  moreover have "res' = Inr (planets_db' ! i)" using r i(2) by simp
  moreover have "\<forall>j < length planets_db. j \<noteq> i \<longrightarrow> planets_db' ! j = planets_db ! j"
    using r by simp
  moreover have "length planets_db' = length planets_db" using r by simp
  ultimately show ?thesis
    using i(2,3) by blast
qed

text \<open>
  C10. \<^verbatim>\<open>update_planet\<close> on an existing planet, whatever its outcome. In \<^verbatim>\<open>app.py\<close>,
  with the ids of the table distinct (the primary key): the table keeps its length, every
  row other than the addressed one is unchanged, and in the addressed row as stored and
  as returned the id, \<^verbatim>\<open>created_at\<close> and every field that the request left out have
  their prior values. In \<^verbatim>\<open>flask_app.py\<close>, with the key \<^verbatim>\<open>id\<close> in every stored
  dictionary: the request succeeds on the first planet with the id, the list keeps its
  length, every other entry is unchanged, and in the addressed dictionary every key
  that is not among the request's keys, \<^verbatim>\<open>updated_at\<close> apart, maps to what it did.
\<close>

theorem update_keeps_omitted_fields:
  "(distinct (map planet_id db) \<and> old \<in> set db \<and> planet_id old = pid
      \<and> app_update_planet now db pid upd = (res, db')
      \<longrightarrow> length db' = length db
        \<and> (\<forall>i < length db. db ! i \<noteq> old \<longrightarrow> db' ! i = db ! i)
        \<and> (\<forall>new. res = Inr new \<or> (\<exists>i < length db. db ! i = old \<and> new = db' ! i)
              \<longrightarrow> planet_id new = planet_id old
                \<and> created_at new = created_at old
                \<and> (u_name upd = None \<longrightarrow> name new = name old)
                \<and> (u_planet_type upd = None \<longrightarrow> planet_type new = planet_type old)
                \<and> (u_distance_from_sun upd = None
                     \<longrightarrow> distance_from_sun new = distance_from_sun old)
                \<and> (u_radius upd = None \<longrightarrow> radius new = radius old)
                \<and> (u_description upd = None \<longrightarrow> description new = description old)
                \<and> (u_mass upd = None \<longrightarrow> mass new = mass old)
                \<and> (u_orbital_period upd = None \<longrightarrow> orbital_period new = orbital_period old)))
   \<and> ((\<forall>p \<in> set planets_db. p ''id'' \<noteq> None)
      \<and> (\<exists>p \<in> set planets_db. py_eq (py_get p ''id'') (JInt pid'))
      \<and> flask_update_planet now planets_db pid' data = (res', planets_db')
      \<longrightarrow> (\<exists>i < length planets_db.
             py_eq (py_get (planets_db ! i) ''id'') (JInt pid')
           \<and> length planets_db' = length planets_db
           \<and> (\<forall>j < length planets_db. j \<noteq> i \<longrightarrow> planets_db' ! j = planets_db ! j)
           \<and> res' = Inr (planets_db' ! i)
           \<and> (\<forall>k. k \<notin> fst ` set data \<and> k \<noteq> ''updated_at''
                 \<longrightarrow> (planets_db' ! i) k = (planets_db ! i) k)))"
  by (rule conjI; rule impI) (erule app_update_frame, erule flask_update_frame)

text \<open>C10 on the demo stores: a request that gives only a description.\<close>

theorem update_keeps_omitted_fields_witness:
  "app_update_planet 1000 [earth, mars] 1 new_description
       = (Inr earth_updated, [earth_updated, mars])
   \<and> [earth_updated, mars] ! 1 = mars
   \<and> name earth_updated = name earth
   \<and> radius earth_updated = radius earth
   \<and> orbital_period earth_updated = orbital_period earth
   \<and> flask_update_planet 1000 [earth_dict, mars_dict] 2 [(''description'', JStr ''Dusty'')]
       = (Inr mars_dict_updated, [earth_dict, mars_dict_updated])
   \<and> mars_dict_updated ''name'' = mars_dict ''name''
   \<and> mars_dict_updated ''id'' = mars_dict ''id''"
proof -
  note T = update_keeps_omitted_fields [of "[earth, mars]" earth 1 1000 new_description
      "Inr earth_updated" "[earth_updated, mars]"
      "[earth_dict, mars_dict]" 2 "[(''description'', JStr ''Dusty'')]"
      "Inr mars_dict_updated" "[earth_dict, mars_dict_updated]"]
  have run1: "app_update_planet 1000 [earth, mars] 1 new_description
       = (Inr earth_updated, [earth_updated, mars])"
    by (simp add: app_update_planet_def sqlite_int_def setattrs_def new_description_def
        earth_def mars_def earth_updated_def not_null_ok_def name_taken_def replace_row_def
        Let_def)
  have pre1: "distinct (map planet_id [earth, mars]) \<and> earth \<in> set [earth, mars]
      \<and> planet_id earth = 1
      \<and> app_update_planet 1000 [earth, mars] 1 new_description
          = (Inr earth_updated, [earth_updated, mars])"
    using run1 by (simp add: earth_def mars_def)
  have run2: "flask_update_planet 1000 [earth_dict, mars_dict] 2 [(''description'', JStr ''Dusty'')]
       = (Inr mars_dict_updated, [earth_dict, mars_dict_updated])"
    by (simp add: flask_update_planet_def update_field_def earth_dict_def mars_dict_def
        mars_dict_updated_def py_eq_def Let_def)
  have pre2: "(\<forall>p \<in> set [earth_dict, mars_dict]. p ''id'' \<noteq> None)
      \<and> (\<exists>p \<in> set [earth_dict, mars_dict]. py_eq (py_get p ''id'') (JInt 2))
      \<and> flask_update_planet 1000 [earth_dict, mars_dict] 2 [(''description'', JStr ''Dusty'')]
          = (Inr mars_dict_updated, [earth_dict, mars_dict_updated])"
    using run2 by (simp add: earth_dict_def mars_dict_def py_get_def py_eq_def)
  note c1 = T [THEN conjunct1, THEN mp, OF pre1]
  note c2 = T [THEN conjunct2, THEN mp, OF pre2]
  have others: "[earth_updated, mars] ! 1 = mars"
    using c1 [THEN conjunct2, THEN conjunct1] by simp
  have kept: "name earth_updated = name earth \<and> radius earth_updated = radius earth
      \<and> orbital_period earth_updated = orbital_period earth"
    using c1 [THEN conjunct2, THEN conjunct2, THEN spec, of earth_updated]
    by (simp add: new_description_def)
  from c2 obtain i where i: "i < length [earth_dict, mars_dict]"
      "py_eq (py_get ([earth_dict, mars_dict] ! i) ''id'') (JInt 2)"
      "\<forall>k. k \<notin> fst ` set [(''description'', JStr ''Dusty'')] \<and> k \<noteq> ''updated_at''
          \<longrightarrow> ([earth_dict, mars_dict_updated] ! i) k = ([earth_dict, mars_dict] ! i) k"
    by blast
  have "i = 1"
  proof (rule ccontr)
    assume "i \<noteq> 1"
    with i(1) have "i = 0" by simp
    with i(2) show False by (simp add: earth_dict_def py_get_def py_eq_def)
  qed
  with i(3) have kept2: "mars_dict_updated ''name'' = mars_dict ''name''
      \<and> mars_dict_updated ''id'' = mars_dict ''id''"
    by simp
  show ?thesis using run1 run2 others kept kept2 by simp
qed

end
